theory Spec2Isabelle
  imports Complex_Main "HOL-Library.Sublist" "HOL-Library.Multiset"
begin

section \<open>JavaScript values, strings and errors\<close>

text \<open>
  The route handlers read an untyped JSON body, so the values they branch on are
  JavaScript values. A \<open>string\<close> stands for a JavaScript string, one \<open>char\<close> per
  UTF-16 code unit (code units above 255 are outside \<open>char\<close>). The number carried by
  \<open>JNumber\<close> is the value of the parsed double; this code only asks whether it is zero.
\<close>

datatype js_value =
    JUndefined
  | JNull
  | JBool bool
  | JNumber real
  | JString string
  | JArray "js_value list"
  | JObject "(string \<times> js_value) list"

text \<open>\<open>!v\<close> is \<open>\<not> truthy v\<close>.\<close>

fun truthy :: "js_value \<Rightarrow> bool" where
  "truthy JUndefined = False"
| "truthy JNull = False"
| "truthy (JBool b) = b"
| "truthy (JNumber x) = (x \<noteq> 0)"
| "truthy (JString s) = (s \<noteq> [])"
| "truthy (JArray xs) = True"
| "truthy (JObject kvs) = True"

text \<open>\<open>String.prototype.trim\<close>: white space and line terminators that fit a \<open>char\<close>
  (TAB, LF, VT, FF, CR, SP, NBSP) are removed from both ends.\<close>

definition isWhiteSpace :: "char \<Rightarrow> bool" where
  "isWhiteSpace c = (of_char c \<in> set [9, 10, 11, 12, 13, 32, 160 :: nat])"

definition trim :: "string \<Rightarrow> string" where
  "trim s = rev (dropWhile isWhiteSpace (rev (dropWhile isWhiteSpace s)))"

text \<open>A thrown exception, with its \<open>message\<close> (empty when it has none), and the error object
  that the Supabase client returns in the \<open>error\<close> field instead of throwing.\<close>

datatype js_error = JsError (message: string)

datatype db_error = DbError (db_message: string)

section \<open>Data model\<close>

text \<open>A row of \<open>chat_messages\<close> as \<open>select('id, created_at, user_query, bot_response,
  pdf_context_used')\<close> returns it; column types as in the README's table (\<open>bot_response\<close>
  is nullable).\<close>

record chat_row =
  id_row :: string
  created_at :: string
  user_query_row :: string
  bot_response_row :: "string option"
  pdf_context_used_row :: bool

text \<open>The object passed to \<open>insert\<close>. \<open>pdf_context_used\<close> is whatever JavaScript value the
  handler holds; \<open>isError\<close> is present on the error path only.\<close>

record insert_payload =
  user_id :: string
  user_query :: js_value
  bot_response :: string
  pdf_context_used :: js_value
  isError :: "bool option"

datatype sender = User | Bot | System

text \<open>The \<open>Message\<close> interface shared by the history route and the chat page. Every
  message this code builds carries a timestamp; optional fields are \<open>None\<close> when absent.\<close>

record Message =
  id_msg :: string
  text_msg :: "string option"
  sender :: sender
  pdfContextUsed :: "bool option"
  timestamp :: string
  isError_msg :: "bool option"

datatype response_body =
    ErrorBody string
  | ReplyBody string
  | HistoryBody "Message list"

record http_response =
  status :: nat
  json_body :: response_body

datatype console = ConsoleError string string | ConsoleWarn string string

text \<open>What one invocation of a handler does: the response it returns, the inserts it
  sends to the store (in order), and what it writes to the console.\<close>

record result =
  response :: http_response
  inserts :: "insert_payload list"
  logged :: "console list"

text \<open>The first candidate's finish reason and the prompt feedback's block reason are
  strings of the SDK's enumerations, absent when the field (or its parent) is.\<close>

record gen_response =
  response_text :: "js_error + string"
  blockReason :: "string option"
  finishReason :: "string option"

text \<open>The external collaborators of a request: the configured API key, the session's
  user id (\<open>None\<close> for \<open>user === null\<close>), the store's select and insert, and the model call.
  \<open>getUser\<close> and \<open>generateContent\<close> can throw and then return \<open>Inl\<close> of the exception. The
  Supabase query builders do not throw: they answer \<open>{data, error}\<close>, which is \<open>Inl\<close> of the
  error or \<open>Inr\<close> of the rows for the select, and the error or \<open>None\<close> for the insert.\<close>

record env =
  GEMINI_API_KEY :: "string option"
  auth_getUser :: "js_error + string option"
  select_chat_messages :: "string \<Rightarrow> db_error + chat_row list"
  insert_chat_messages :: "insert_payload \<Rightarrow> db_error option"
  generateContent :: "string \<Rightarrow> js_error + gen_response option"

definition json_response :: "response_body \<Rightarrow> nat \<Rightarrow> http_response" where
  "json_response b s = \<lparr>status = s, json_body = b\<rparr>"

section \<open>GET /api/chat-history\<close>

definition history_pair :: "chat_row \<Rightarrow> Message list" where
  "history_pair msg =
     [\<lparr>id_msg = id_row msg @ ''-user'', text_msg = Some (user_query_row msg), sender = User,
       pdfContextUsed = None, timestamp = created_at msg, isError_msg = None\<rparr>,
      \<lparr>id_msg = id_row msg @ ''-bot'', text_msg = bot_response_row msg, sender = Bot,
       pdfContextUsed = Some (pdf_context_used_row msg), timestamp = created_at msg,
       isError_msg = None\<rparr>]"

definition GET :: "env \<Rightarrow> result" where
  "GET env =
     (case auth_getUser env of
        Inl error \<Rightarrow>
          \<lparr>response = json_response
             (ErrorBody (''An unexpected error occurred. '' @ message error)) 500,
           inserts = [],
           logged = [ConsoleError ''Unexpected error in chat-history route:'' (message error)]\<rparr>
      | Inr None \<Rightarrow>
          \<lparr>response = json_response
             (ErrorBody ''Unauthorized: You must be logged in to view chat history.'') 401,
           inserts = [], logged = []\<rparr>
      | Inr (Some user) \<Rightarrow>
          (case select_chat_messages env user of
             Inl dbError \<Rightarrow>
               \<lparr>response = json_response
                  (ErrorBody (''Failed to fetch chat history. '' @ db_message dbError)) 500,
                inserts = [],
                logged = [ConsoleError ''Error fetching chat history:'' (db_message dbError)]\<rparr>
           | Inr chatMessages \<Rightarrow>
               \<lparr>response = json_response (HistoryBody (concat (map history_pair chatMessages))) 200,
                inserts = [], logged = []\<rparr>))"

section \<open>POST /api/chat\<close>

record request =
  request_json :: "js_error + js_value"

text \<open>The two locals declared before the \<open>try\<close>, which the \<open>catch\<close> block reads.\<close>

record locals =
  userIdForDb :: "string option"
  originalUserQuery :: js_value

text \<open>Reading a property of the parsed body. The list of a \<open>JObject\<close> holds the object's
  own properties, each key once; the handler reads \<open>query\<close> and \<open>pdfText\<close> only, which no
  other kind of JSON value has.\<close>

fun property :: "js_value \<Rightarrow> string \<Rightarrow> js_value" where
  "property (JObject kvs) k = (case map_of kvs k of Some v \<Rightarrow> v | None \<Rightarrow> JUndefined)"
| "property v k = JUndefined"

definition MAX_PDF_TEXT_LENGTH :: nat where
  "MAX_PDF_TEXT_LENGTH = 70000"

definition truncation_marker :: string where
  "truncation_marker = ''\<newline>[...PDF text truncated due to length...]''"

text \<open>\<open>pdfText && typeof pdfText === 'string' && pdfText.trim() !== ""\<close>: the value of
  an \<open>&&\<close> chain is its first falsy operand, or the last operand.\<close>

definition wasPdfContextUsed :: "js_value \<Rightarrow> js_value" where
  "wasPdfContextUsed pdfText =
     (if \<not> truthy pdfText then pdfText
      else case pdfText of
             JString s \<Rightarrow> JBool (trim s \<noteq> [])
           | _ \<Rightarrow> JBool False)"

definition truncatedPdfText :: "string \<Rightarrow> string" where
  "truncatedPdfText pdfText =
     (if length pdfText > MAX_PDF_TEXT_LENGTH
      then take MAX_PDF_TEXT_LENGTH pdfText @ truncation_marker
      else pdfText)"

definition prompt_before_document :: string where
  "prompt_before_document =
     ''\<newline>        Based on the following document text, please answer the user's question.'' @
     ''\<newline>        If the answer is not found in the document, state that explicitly.'' @
     ''\<newline>        Do not make up information not present in the document if the question implies it should come from the document.'' @
     ''\<newline>'' @
     ''\<newline>        Document Text:'' @
     ''\<newline>        ---'' @
     ''\<newline>        ''"

definition prompt_before_question :: string where
  "prompt_before_question =
     ''\<newline>        ---'' @
     ''\<newline>'' @
     ''\<newline>        User Question: ''"

definition prompt_after_question :: string where
  "prompt_after_question =
     ''\<newline>'' @
     ''\<newline>        Answer:'' @
     ''\<newline>      ''"

text \<open>The prompt for a validated query. The first branch is taken when
  \<open>wasPdfContextUsed\<close> is truthy, which makes \<open>pdfText\<close> a string.\<close>

definition fullPrompt :: "string \<Rightarrow> js_value \<Rightarrow> string" where
  "fullPrompt query pdfText =
     (case (truthy (wasPdfContextUsed pdfText), pdfText) of
        (True, JString s) \<Rightarrow>
          prompt_before_document @ truncatedPdfText s @ prompt_before_question @ query @
          prompt_after_question
      | _ \<Rightarrow> ''User Question: '' @ query @ ''\<newline>Answer:'')"

text \<open>The members of the SDK's enumerations that the handler compares with, by their
  string values.\<close>

definition BlockReason_SAFETY :: string where
  "BlockReason_SAFETY = ''SAFETY''"

definition FinishReason_SAFETY :: string where
  "FinishReason_SAFETY = ''SAFETY''"

definition FinishReason_STOP :: string where
  "FinishReason_STOP = ''STOP''"

definition default_blockReasonMessage :: string where
  "default_blockReasonMessage = ''Response generation failed or was blocked.''"

definition empty_response_message :: string where
  "empty_response_message = ''I received an empty response from the AI. Could you try rephrasing?''"

text \<open>The branch taken when the model's text is empty: the prompt feedback is looked at
  first, the first candidate second (so its message wins), and 500 is chosen only when
  neither changed the message.\<close>

definition empty_text_result :: "gen_response \<Rightarrow> result" where
  "empty_text_result r =
     (let (message1, log1) =
            (if blockReason r = Some BlockReason_SAFETY
             then (''Your query was blocked due to safety concerns. Please rephrase.'',
                   [ConsoleWarn ''Gemini: Response blocked due to SAFETY (promptFeedback). Ratings:'' []])
             else case blockReason r of
                    Some b \<Rightarrow>
                      if b \<noteq> []
                      then (''There was an issue with the prompt. Reason: '' @ b @ ''.'',
                            [ConsoleWarn ''Gemini: Prompt processing issue. Reason: '' b])
                      else (default_blockReasonMessage, [])
                  | None \<Rightarrow> (default_blockReasonMessage, []));
          (message2, log2) =
            (if finishReason r = Some FinishReason_SAFETY
             then (''The generated response was blocked due to safety concerns. Please try a different query.'',
                   [ConsoleWarn ''Gemini: Response blocked due to SAFETY (candidate finishReason). Safety Ratings:'' []])
             else case finishReason r of
                    Some f \<Rightarrow>
                      if f \<noteq> [] \<and> f \<noteq> FinishReason_STOP
                      then (''Response generation incomplete. Reason: '' @ f @
                              ''. Try a shorter query or PDF.'',
                            [ConsoleWarn ''Gemini: Response generation stopped. Reason: '' f])
                      else (message1, [])
                  | None \<Rightarrow> (message1, []));
          (blockReasonMessage, statusCode, log3) =
            (if message2 = default_blockReasonMessage
             then (empty_response_message, 500,
                   [ConsoleWarn ''Gemini API returned an empty text response. Full response object:'' []])
             else (message2, 400, []))
      in \<lparr>response = json_response (ErrorBody blockReasonMessage) statusCode,
          inserts = [], logged = log1 @ log2 @ log3\<rparr>)"

definition unexpected_error_message :: string where
  "unexpected_error_message = ''An unexpected error occurred while processing your chat request.''"

definition errorMessage :: "js_error \<Rightarrow> string" where
  "errorMessage error = (if message error \<noteq> [] then message error else unexpected_error_message)"

definition error_payload :: "string \<Rightarrow> js_value \<Rightarrow> js_error \<Rightarrow> insert_payload" where
  "error_payload uid query error =
     \<lparr>user_id = uid, user_query = query,
      bot_response = ''SYSTEM ERROR: '' @ errorMessage error,
      pdf_context_used = JBool False, isError = Some True\<rparr>"

text \<open>The \<open>catch\<close> block. \<open>if (userIdForDb)\<close> holds for a non-null, non-empty id.\<close>

definition catch_block :: "env \<Rightarrow> locals \<Rightarrow> js_error \<Rightarrow> result" where
  "catch_block env l error =
     (let log0 = [ConsoleError ''Error in /api/chat route:'' (message error)];
          statusCode = 500;
          (ins, log1) =
            (case userIdForDb l of
               None \<Rightarrow> ([], [])
             | Some uid \<Rightarrow>
                 if uid = [] then ([], [])
                 else (let payload = error_payload uid (originalUserQuery l) error
                       in ([payload],
                           case insert_chat_messages env payload of
                             Some dbError \<Rightarrow>
                               [ConsoleError ''Supabase DB Error saving system error message:''
                                  (db_message dbError)]
                           | None \<Rightarrow> [])))
      in \<lparr>response = json_response (ErrorBody (errorMessage error)) statusCode,
          inserts = ins, logged = log0 @ log1\<rparr>)"

text \<open>Lines 86 to 148, for a validated query \<open>q\<close>: the model call, the reading of its
  result, and the insert of the interaction record. \<open>Inl\<close> is an exception thrown by the
  model call or by \<open>response.text()\<close>.\<close>

definition generate_and_save ::
  "env \<Rightarrow> string \<Rightarrow> string \<Rightarrow> js_value \<Rightarrow> js_error + result" where
  "generate_and_save env uid q pdfText =
     (case generateContent env (fullPrompt q pdfText) of
        Inl e \<Rightarrow> Inl e
      | Inr None \<Rightarrow>
          Inr \<lparr>response = json_response
                 (ErrorBody ''Gemini API communication error. No response object.'') 500,
               inserts = [],
               logged = [ConsoleError ''Gemini API did not return a response object. Full result:'' []]\<rparr>
      | Inr (Some r) \<Rightarrow>
          (case response_text r of
             Inl e \<Rightarrow> Inl e
           | Inr responseText \<Rightarrow>
               if responseText = [] then Inr (empty_text_result r)
               else
                 (let payload = \<lparr>user_id = uid, user_query = JString q,
                                 bot_response = responseText,
                                 pdf_context_used = wasPdfContextUsed pdfText,
                                 isError = None\<rparr>
                  in Inr \<lparr>response = json_response (ReplyBody responseText) 200,
                          inserts = [payload],
                          logged =
                            (case insert_chat_messages env payload of
                               Some dbError \<Rightarrow>
                                 [ConsoleError ''Supabase DB Error saving chat message:''
                                    (db_message dbError)]
                             | None \<Rightarrow> [])\<rparr>)))"

definition query_required :: http_response where
  "query_required =
     json_response (ErrorBody ''Query is required and must be a non-empty string.'') 400"

text \<open>The \<open>try\<close> block: a result when it returns, and the exception together with the
  locals at that point when it throws. Destructuring \<open>null\<close> throws a TypeError (V8's
  message). The check of the query, \<open>!query || typeof query !== 'string' ||
  query.trim() === ""\<close>, rejects every value that is not a string, the empty string, and a
  string that trims to nothing.\<close>

definition try_block :: "env \<Rightarrow> request \<Rightarrow> (js_error \<times> locals) + result" where
  "try_block env req =
     (let l0 = \<lparr>userIdForDb = None, originalUserQuery = JString ''User query not available''\<rparr>
      in case auth_getUser env of
           Inl e \<Rightarrow> Inl (e, l0)
         | Inr None \<Rightarrow>
             Inr \<lparr>response = json_response
                    (ErrorBody ''Unauthorized: You must be logged in to chat.'') 401,
                  inserts = [], logged = []\<rparr>
         | Inr (Some user) \<Rightarrow>
             (let l1 = l0\<lparr>userIdForDb := Some user\<rparr>
              in case request_json req of
                   Inl e \<Rightarrow> Inl (e, l1)
                 | Inr body \<Rightarrow>
                     if body = JNull \<or> body = JUndefined
                     then Inl (JsError
                       ''Cannot destructure property 'query' of 'body' as it is null.'', l1)
                     else
                       (let query = property body ''query'';
                            pdfText = property body ''pdfText'';
                            l2 = l1\<lparr>originalUserQuery :=
                                   (if truthy query then query
                                    else JString ''User query not available in body'')\<rparr>
                        in case query of
                             JString q \<Rightarrow>
                               if q = [] \<or> trim q = []
                               then Inr \<lparr>response = query_required, inserts = [], logged = []\<rparr>
                               else (case generate_and_save env user q pdfText of
                                       Inl e \<Rightarrow> Inl (e, l2)
                                     | Inr res \<Rightarrow> Inr res)
                           | _ \<Rightarrow> Inr \<lparr>response = query_required, inserts = [], logged = []\<rparr>)))"

text \<open>\<open>!GEMINI_API_KEY\<close>: the key is undefined or empty.\<close>

definition api_key_missing :: "env \<Rightarrow> bool" where
  "api_key_missing env = (case GEMINI_API_KEY env of None \<Rightarrow> True | Some k \<Rightarrow> k = [])"

text \<open>The handler: the configuration guard, then the \<open>try\<close> with its \<open>catch\<close>.\<close>

definition POST :: "env \<Rightarrow> request \<Rightarrow> result" where
  "POST env req =
     (if api_key_missing env
      then \<lparr>response = json_response
                (ErrorBody ''API configuration error. Please contact support.'') 500,
             inserts = [],
             logged = [ConsoleError ''/api/chat: Gemini API key is missing.'' []]\<rparr>
      else case try_block env req of
             Inl (error, l) \<Rightarrow> catch_block env l error
           | Inr res \<Rightarrow> res)"

section \<open>The chat page: merging fetched history into the displayed messages\<close>

text \<open>A JavaScript number that may be \<open>NaN\<close> (\<open>None\<close>), and the subtraction of two.\<close>

definition js_minus :: "int option \<Rightarrow> int option \<Rightarrow> int option" where
  "js_minus x y = (case (x, y) of (Some a, Some b) \<Rightarrow> Some (a - b) | _ \<Rightarrow> None)"

text \<open>\<open>Array.prototype.sort\<close> with a comparator is a stable sort, and it reads a
  comparator result of \<open>NaN\<close> as \<open>+0\<close>. With a consistent comparator its result is
  determined, and insertion from the right computes it; with a comparator that is not
  consistent (one that answers \<open>NaN\<close>) the order is left to the implementation.\<close>

fun insert_by :: "('a \<Rightarrow> 'a \<Rightarrow> int option) \<Rightarrow> 'a \<Rightarrow> 'a list \<Rightarrow> 'a list" where
  "insert_by cmp x [] = [x]"
| "insert_by cmp x (y # ys) =
     (if (case cmp x y of Some v \<Rightarrow> v | None \<Rightarrow> 0) \<le> 0 then x # y # ys
      else y # insert_by cmp x ys)"

definition array_sort :: "('a \<Rightarrow> 'a \<Rightarrow> int option) \<Rightarrow> 'a list \<Rightarrow> 'a list" where
  "array_sort cmp xs = foldr (insert_by cmp) xs []"

text \<open>The updater passed to \<open>setMessages\<close> in \<open>fetchChatHistory\<close>. \<open>getTime s\<close> is
  \<open>new Date(s).getTime()\<close>, the platform's reading of a timestamp in milliseconds, \<open>None\<close>
  when the string does not parse as a date.\<close>

definition mergeHistory ::
  "(string \<Rightarrow> int option) \<Rightarrow> Message list \<Rightarrow> Message list \<Rightarrow> Message list" where
  "mergeHistory getTime historyMessages prevMessages =
     (let existingMessageIds = set (map id_msg prevMessages);
          uniqueHistoryMessages =
            filter (\<lambda>histMsg. id_msg histMsg \<notin> existingMessageIds) historyMessages;
          combined = uniqueHistoryMessages @ prevMessages
      in array_sort (\<lambda>a b. js_minus (getTime (timestamp a)) (getTime (timestamp b))) combined)"

section \<open>Example inputs\<close>

definition example_rows :: "chat_row list" where
  "example_rows =
     [\<lparr>id_row = ''7f1c'', created_at = ''2024-05-01T10:00:00.000000+00:00'',
       user_query_row = ''What is the capital of France?'', bot_response_row = Some ''Paris.'',
       pdf_context_used_row = False\<rparr>,
      \<lparr>id_row = ''a2b9'', created_at = ''2024-05-01T10:05:00.000000+00:00'',
       user_query_row = ''Summarise the document.'', bot_response_row = Some ''It is a lease.'',
       pdf_context_used_row = True\<rparr>]"

definition example_gen_response :: gen_response where
  "example_gen_response =
     \<lparr>response_text = Inr ''Paris.'', blockReason = None, finishReason = Some ''STOP''\<rparr>"

definition example_env :: env where
  "example_env =
     \<lparr>GEMINI_API_KEY = Some ''key'',
      auth_getUser = Inr (Some ''user-1''),
      select_chat_messages = (\<lambda>uid. Inr (if uid = ''user-1'' then example_rows else [])),
      insert_chat_messages = (\<lambda>payload. None),
      generateContent = (\<lambda>prompt. Inr (Some example_gen_response))\<rparr>"

text \<open>The body the chat page sends when no PDF is loaded: \<open>uploadedPdfText\<close> is \<open>null\<close>.\<close>

definition example_request :: request where
  "example_request =
     \<lparr>request_json = Inr (JObject [(''query'', JString ''What is the capital of France?''),
                                    (''pdfText'', JNull)])\<rparr>"

definition env_no_session :: env where
  "env_no_session = example_env\<lparr>auth_getUser := Inr None\<rparr>"

definition env_no_key_no_session :: env where
  "env_no_key_no_session = example_env\<lparr>GEMINI_API_KEY := None, auth_getUser := Inr None\<rparr>"

definition env_model_throws :: env where
  "env_model_throws =
     example_env\<lparr>generateContent :=
       (\<lambda>prompt. Inl (JsError ''fetch failed: connect ECONNREFUSED 10.0.0.5:443''))\<rparr>"

definition env_select_fails :: env where
  "env_select_fails =
     example_env\<lparr>select_chat_messages :=
       (\<lambda>uid. Inl (DbError ''permission denied for table chat_messages''))\<rparr>"

definition failing_insert :: "insert_payload \<Rightarrow> db_error option" where
  "failing_insert payload = Some (DbError ''new row violates row-level security policy'')"

definition env_model_throws_insert_fails :: env where
  "env_model_throws_insert_fails = env_model_throws\<lparr>insert_chat_messages := failing_insert\<rparr>"

text \<open>A response that the model API blocked for safety, as the SDK hands it to the
  handler: for a response with a prompt feedback and no candidate, and for one whose first
  candidate has the finish reason \<open>SAFETY\<close>, \<open>response.text()\<close> throws a
  \<open>GoogleGenerativeAIResponseError\<close> with these messages.\<close>

definition env_prompt_blocked :: env where
  "env_prompt_blocked =
     example_env\<lparr>generateContent :=
       (\<lambda>prompt. Inr (Some
          \<lparr>response_text = Inl (JsError
             ''[GoogleGenerativeAI Error]: Text not available. Response was blocked due to SAFETY''),
           blockReason = Some ''SAFETY'', finishReason = None\<rparr>))\<rparr>"

definition env_candidate_blocked :: env where
  "env_candidate_blocked =
     example_env\<lparr>generateContent :=
       (\<lambda>prompt. Inr (Some
          \<lparr>response_text = Inl (JsError
             ''[GoogleGenerativeAI Error]: Candidate was blocked due to SAFETY''),
           blockReason = None, finishReason = Some ''SAFETY''\<rparr>))\<rparr>"

text \<open>Responses with empty text for which \<open>response.text()\<close> returns.\<close>

definition env_empty_answer :: env where
  "env_empty_answer =
     example_env\<lparr>generateContent :=
       (\<lambda>prompt. Inr (Some \<lparr>response_text = Inr [], blockReason = None,
                               finishReason = Some ''STOP''\<rparr>))\<rparr>"

definition env_max_tokens :: env where
  "env_max_tokens =
     example_env\<lparr>generateContent :=
       (\<lambda>prompt. Inr (Some \<lparr>response_text = Inr [], blockReason = None,
                               finishReason = Some ''MAX_TOKENS''\<rparr>))\<rparr>"

definition request_malformed :: request where
  "request_malformed = \<lparr>request_json = Inl (JsError ''Unexpected end of JSON input'')\<rparr>"

definition request_empty_query :: request where
  "request_empty_query = \<lparr>request_json = Inr (JObject [(''query'', JString [])])\<rparr>"

text \<open>Messages of the chat page, and the reading of their timestamps.\<close>

definition example_getTime :: "string \<Rightarrow> int option" where
  "example_getTime s =
     map_of [(''2024-05-01T10:00:00.000Z'', 1714557600000),
             (''2024-05-01T10:05:00.000Z'', 1714557900000),
             (''2024-05-01T10:10:00.000Z'', 1714558200000)] s"

definition example_millis :: "Message \<Rightarrow> int" where
  "example_millis m = (case example_getTime (timestamp m) of Some t \<Rightarrow> t | None \<Rightarrow> 0)"

definition history_user_msg :: Message where
  "history_user_msg =
     \<lparr>id_msg = ''7f1c-user'', text_msg = Some ''What is the capital of France?'', sender = User,
      pdfContextUsed = None, timestamp = ''2024-05-01T10:00:00.000Z'', isError_msg = None\<rparr>"

definition history_bot_msg :: Message where
  "history_bot_msg =
     \<lparr>id_msg = ''7f1c-bot'', text_msg = Some ''Paris.'', sender = Bot,
      pdfContextUsed = Some False, timestamp = ''2024-05-01T10:00:00.000Z'', isError_msg = None\<rparr>"

definition shown_system_msg :: Message where
  "shown_system_msg =
     \<lparr>id_msg = ''sys-1714557900000'', text_msg = Some ''PDF context cleared.'', sender = System,
      pdfContextUsed = None, timestamp = ''2024-05-01T10:05:00.000Z'', isError_msg = Some False\<rparr>"

definition shown_user_msg :: Message where
  "shown_user_msg =
     \<lparr>id_msg = ''user-1714558200000'', text_msg = Some ''And of Spain?'', sender = User,
      pdfContextUsed = None, timestamp = ''2024-05-01T10:10:00.000Z'', isError_msg = None\<rparr>"

section \<open>History reconstruction\<close>

lemma length_history: "length (concat (map history_pair rows)) = 2 * length rows"
  by (induction rows) (simp_all add: history_pair_def)

lemma nth_history_even:
  "i < length rows \<Longrightarrow> concat (map history_pair rows) ! (2 * i) = history_pair (rows ! i) ! 0"
proof (induction rows arbitrary: i)
  case Nil
  then show ?case by simp
next
  case (Cons r rows)
  show ?case
  proof (cases i)
    case 0
    then show ?thesis by (simp add: history_pair_def)
  next
    case (Suc j)
    with Cons.prems have "j < length rows" by simp
    from Cons.IH [OF this] Suc show ?thesis by (simp add: history_pair_def)
  qed
qed

lemma nth_history_odd:
  "i < length rows \<Longrightarrow> concat (map history_pair rows) ! Suc (2 * i) = history_pair (rows ! i) ! 1"
proof (induction rows arbitrary: i)
  case Nil
  then show ?case by simp
next
  case (Cons r rows)
  show ?case
  proof (cases i)
    case 0
    then show ?thesis by (simp add: history_pair_def)
  next
    case (Suc j)
    with Cons.prems have "j < length rows" by simp
    from Cons.IH [OF this] Suc show ?thesis by (simp add: history_pair_def)
  qed
qed

text \<open>
  C1. When the caller is identified and the store returns its N rows, the history
  operation answers 200 with exactly 2N display messages; message 2i is the user-role
  message carrying row i's query and message 2i+1 is the bot-role message carrying row
  i's response and context flag, both with row i's \<open>created_at\<close> as timestamp. For no
  rows the answer is the empty sequence.
\<close>

theorem C1_history_reconstruction:
  assumes "auth_getUser env = Inr (Some user)"
    and "select_chat_messages env user = Inr rows"
  shows "\<exists>history.
           response (GET env) = \<lparr>status = 200, json_body = HistoryBody history\<rparr> \<and>
           length history = 2 * length rows \<and>
           (rows = [] \<longrightarrow> history = []) \<and>
           (\<forall>i<length rows.
              sender (history ! (2 * i)) = User \<and>
              text_msg (history ! (2 * i)) = Some (user_query_row (rows ! i)) \<and>
              timestamp (history ! (2 * i)) = created_at (rows ! i) \<and>
              sender (history ! (2 * i + 1)) = Bot \<and>
              text_msg (history ! (2 * i + 1)) = bot_response_row (rows ! i) \<and>
              pdfContextUsed (history ! (2 * i + 1)) = Some (pdf_context_used_row (rows ! i)) \<and>
              timestamp (history ! (2 * i + 1)) = created_at (rows ! i))"
proof -
  let ?h = "concat (map history_pair rows)"
  have "response (GET env) = \<lparr>status = 200, json_body = HistoryBody ?h\<rparr>"
    using assms by (simp add: GET_def json_response_def)
  moreover have "length ?h = 2 * length rows"
    by (rule length_history)
  moreover have "rows = [] \<longrightarrow> ?h = []"
    by simp
  moreover have "\<forall>i<length rows.
      sender (?h ! (2 * i)) = User \<and>
      text_msg (?h ! (2 * i)) = Some (user_query_row (rows ! i)) \<and>
      timestamp (?h ! (2 * i)) = created_at (rows ! i) \<and>
      sender (?h ! (2 * i + 1)) = Bot \<and>
      text_msg (?h ! (2 * i + 1)) = bot_response_row (rows ! i) \<and>
      pdfContextUsed (?h ! (2 * i + 1)) = Some (pdf_context_used_row (rows ! i)) \<and>
      timestamp (?h ! (2 * i + 1)) = created_at (rows ! i)"
    by (simp add: nth_history_even nth_history_odd history_pair_def)
  ultimately show ?thesis by blast
qed

theorem C1_history_reconstruction_witness:
  "auth_getUser example_env = Inr (Some ''user-1'') \<and>
   select_chat_messages example_env ''user-1'' = Inr example_rows \<and>
   (\<exists>history.
      response (GET example_env) = \<lparr>status = 200, json_body = HistoryBody history\<rparr> \<and>
      length history = 4 \<and>
      sender (history ! 2) = User \<and>
      text_msg (history ! 2) = Some ''Summarise the document.'' \<and>
      sender (history ! 3) = Bot \<and>
      text_msg (history ! 3) = Some ''It is a lease.'' \<and>
      pdfContextUsed (history ! 3) = Some True \<and>
      timestamp (history ! 2) = ''2024-05-01T10:05:00.000000+00:00'' \<and>
      timestamp (history ! 3) = ''2024-05-01T10:05:00.000000+00:00'')"
proof -
  have a: "auth_getUser example_env = Inr (Some ''user-1'')"
    by (simp add: example_env_def)
  have s: "select_chat_messages example_env ''user-1'' = Inr example_rows"
    by (simp add: example_env_def)
  from C1_history_reconstruction [OF a s] obtain history where
    h: "response (GET example_env) = \<lparr>status = 200, json_body = HistoryBody history\<rparr>"
      "length history = 2 * length example_rows"
      "\<forall>i<length example_rows.
         sender (history ! (2 * i)) = User \<and>
         text_msg (history ! (2 * i)) = Some (user_query_row (example_rows ! i)) \<and>
         timestamp (history ! (2 * i)) = created_at (example_rows ! i) \<and>
         sender (history ! (2 * i + 1)) = Bot \<and>
         text_msg (history ! (2 * i + 1)) = bot_response_row (example_rows ! i) \<and>
         pdfContextUsed (history ! (2 * i + 1)) = Some (pdf_context_used_row (example_rows ! i)) \<and>
         timestamp (history ! (2 * i + 1)) = created_at (example_rows ! i)"
    by blast
  have "1 < length example_rows"
    by (simp add: example_rows_def)
  with h(3) have
    "sender (history ! (2 * 1)) = User \<and>
     text_msg (history ! (2 * 1)) = Some (user_query_row (example_rows ! 1)) \<and>
     timestamp (history ! (2 * 1)) = created_at (example_rows ! 1) \<and>
     sender (history ! (2 * 1 + 1)) = Bot \<and>
     text_msg (history ! (2 * 1 + 1)) = bot_response_row (example_rows ! 1) \<and>
     pdfContextUsed (history ! (2 * 1 + 1)) = Some (pdf_context_used_row (example_rows ! 1)) \<and>
     timestamp (history ! (2 * 1 + 1)) = created_at (example_rows ! 1)"
    by blast
  then have
    "sender (history ! 2) = User \<and>
     text_msg (history ! 2) = Some ''Summarise the document.'' \<and>
     sender (history ! 3) = Bot \<and>
     text_msg (history ! 3) = Some ''It is a lease.'' \<and>
     pdfContextUsed (history ! 3) = Some True \<and>
     timestamp (history ! 2) = ''2024-05-01T10:05:00.000000+00:00'' \<and>
     timestamp (history ! 3) = ''2024-05-01T10:05:00.000000+00:00''"
    by (simp add: example_rows_def)
  moreover from h(2) have "length history = 4"
    by (simp add: example_rows_def)
  ultimately show ?thesis
    using a s h(1) by blast
qed

section \<open>Prompt construction\<close>

lemma trim_eq_Nil_iff: "trim s = [] \<longleftrightarrow> (\<forall>c\<in>set s. isWhiteSpace c)"
proof
  assume "trim s = []"
  then have all: "\<forall>c\<in>set (dropWhile isWhiteSpace s). isWhiteSpace c"
    by (simp add: trim_def)
  show "\<forall>c\<in>set s. isWhiteSpace c"
  proof (rule ccontr)
    assume "\<not> (\<forall>c\<in>set s. isWhiteSpace c)"
    then have ne: "dropWhile isWhiteSpace s \<noteq> []"
      by simp
    then have "\<not> isWhiteSpace (hd (dropWhile isWhiteSpace s))"
      by (rule hd_dropWhile)
    moreover from ne have "hd (dropWhile isWhiteSpace s) \<in> set (dropWhile isWhiteSpace s)"
      by simp
    ultimately show False
      using all by blast
  qed
next
  assume "\<forall>c\<in>set s. isWhiteSpace c"
  then have d: "dropWhile isWhiteSpace s = []"
    by simp
  show "trim s = []"
    unfolding trim_def d by simp
qed

lemma trim_Nil: "trim [] = []"
  by (simp add: trim_def)

lemma wasPdfContextUsed_string:
  "wasPdfContextUsed (JString s) = (if s = [] then JString [] else JBool (trim s \<noteq> []))"
  by (simp add: wasPdfContextUsed_def)

lemma truthy_wasPdfContextUsed:
  "truthy (wasPdfContextUsed v) \<longleftrightarrow> (\<exists>s. v = JString s \<and> trim s \<noteq> [])"
  by (cases v) (auto simp: wasPdfContextUsed_def trim_Nil)

lemma fullPrompt_with_context:
  "trim s \<noteq> [] \<Longrightarrow>
   fullPrompt query (JString s) =
     prompt_before_document @ truncatedPdfText s @ prompt_before_question @ query @
     prompt_after_question"
  by (simp add: fullPrompt_def truthy_wasPdfContextUsed)

lemma fullPrompt_without_context:
  "\<not> truthy (wasPdfContextUsed v) \<Longrightarrow>
   fullPrompt query v = ''User Question: '' @ query @ ''\<newline>Answer:''"
  by (simp add: fullPrompt_def)

text \<open>
  C2, as the code has it. Document text is embedded only when it is non-empty after
  trimming. Then, when it is longer than 70,000 characters, the prompt embeds its first
  70,000 characters followed by the truncation marker, so the prompt contains the marker;
  when it is at most 70,000 characters long, the prompt embeds the text unmodified and
  appends nothing to it.
\<close>

theorem C2_document_text_truncation:
  assumes "trim pdfText \<noteq> []"
  shows "(length pdfText > 70000 \<longrightarrow>
            fullPrompt query (JString pdfText) =
              prompt_before_document @ take 70000 pdfText @ truncation_marker @
              prompt_before_question @ query @ prompt_after_question \<and>
            length (take 70000 pdfText) = 70000 \<and>
            sublist truncation_marker (fullPrompt query (JString pdfText))) \<and>
         (length pdfText \<le> 70000 \<longrightarrow>
            fullPrompt query (JString pdfText) =
              prompt_before_document @ pdfText @ prompt_before_question @ query @
              prompt_after_question)"
proof (intro conjI impI)
  assume long: "length pdfText > 70000"
  with assms show eq: "fullPrompt query (JString pdfText) =
      prompt_before_document @ take 70000 pdfText @ truncation_marker @
      prompt_before_question @ query @ prompt_after_question"
    by (simp add: fullPrompt_with_context truncatedPdfText_def MAX_PDF_TEXT_LENGTH_def)
  from long show "length (take 70000 pdfText) = 70000"
    by simp
  have "fullPrompt query (JString pdfText) =
      (prompt_before_document @ take 70000 pdfText) @ truncation_marker @
      (prompt_before_question @ query @ prompt_after_question)"
    using eq by simp
  then show "sublist truncation_marker (fullPrompt query (JString pdfText))"
    unfolding sublist_def by blast
next
  assume "length pdfText \<le> 70000"
  with assms show "fullPrompt query (JString pdfText) =
      prompt_before_document @ pdfText @ prompt_before_question @ query @ prompt_after_question"
    by (simp add: fullPrompt_with_context truncatedPdfText_def MAX_PDF_TEXT_LENGTH_def)
qed

theorem C2_document_text_truncation_witness:
  "trim (CHR ''a'' # replicate 70000 (CHR ''b'')) \<noteq> [] \<and>
   length (CHR ''a'' # replicate 70000 (CHR ''b'')) > 70000 \<and>
   sublist truncation_marker
     (fullPrompt ''What is this?'' (JString (CHR ''a'' # replicate 70000 (CHR ''b'')))) \<and>
   trim ''A lease.'' \<noteq> [] \<and>
   length ''A lease.'' \<le> 70000 \<and>
   fullPrompt ''What is this?'' (JString ''A lease.'') =
     prompt_before_document @ ''A lease.'' @ prompt_before_question @ ''What is this?'' @
     prompt_after_question"
proof -
  have long: "trim (CHR ''a'' # replicate 70000 (CHR ''b'')) \<noteq> []"
    by (simp add: trim_eq_Nil_iff isWhiteSpace_def)
  have short: "trim ''A lease.'' \<noteq> []"
    by (simp add: trim_eq_Nil_iff isWhiteSpace_def)
  have len_long: "length (CHR ''a'' # replicate 70000 (CHR ''b'')) > 70000"
    by simp
  have len_short: "length ''A lease.'' \<le> 70000"
    by simp
  from C2_document_text_truncation [OF long, of "''What is this?''"] len_long
  have marker: "sublist truncation_marker
      (fullPrompt ''What is this?'' (JString (CHR ''a'' # replicate 70000 (CHR ''b''))))"
    by blast
  from C2_document_text_truncation [OF short, of "''What is this?''"] len_short
  have unmodified: "fullPrompt ''What is this?'' (JString ''A lease.'') =
      prompt_before_document @ ''A lease.'' @ prompt_before_question @ ''What is this?'' @
      prompt_after_question"
    by blast
  from long len_long marker short len_short unmodified show ?thesis
    by blast
qed

text \<open>
  C2 as the specification states it, for every supplied document text longer than the
  maximum, does not hold for text that consists of white space only: 70,001 spaces are
  not used as context, and the prompt is the bare question without any marker.
\<close>

theorem C2_counterexample:
  "length (replicate 70001 (CHR '' '')) > 70000 \<and>
   fullPrompt ''hi'' (JString (replicate 70001 (CHR '' ''))) = ''User Question: hi\<newline>Answer:'' \<and>
   \<not> sublist truncation_marker (fullPrompt ''hi'' (JString (replicate 70001 (CHR '' ''))))"
proof -
  have "trim (replicate 70001 (CHR '' '')) = []"
    by (simp add: trim_eq_Nil_iff isWhiteSpace_def)
  then have "\<not> truthy (wasPdfContextUsed (JString (replicate 70001 (CHR '' ''))))"
    by (simp add: truthy_wasPdfContextUsed)
  then have p: "fullPrompt ''hi'' (JString (replicate 70001 (CHR '' ''))) = ''User Question: hi\<newline>Answer:''"
    by (simp add: fullPrompt_without_context)
  have "\<not> sublist truncation_marker ''User Question: hi\<newline>Answer:''"
    by (simp add: truncation_marker_def sublist_code)
  with p show ?thesis
    by simp
qed

section \<open>The chat handler on a validated query\<close>

lemma trim_nonempty: "trim q \<noteq> [] \<Longrightarrow> q \<noteq> []"
  by (auto simp: trim_Nil)

lemma try_block_valid_query:
  assumes "auth_getUser env = Inr (Some user)"
    and "request_json req = Inr body"
    and "body \<noteq> JNull" and "body \<noteq> JUndefined"
    and "property body ''query'' = JString q"
    and "trim q \<noteq> []"
  shows "try_block env req =
           (case generate_and_save env user q (property body ''pdfText'') of
              Inl e \<Rightarrow> Inl (e, \<lparr>userIdForDb = Some user, originalUserQuery = JString q\<rparr>)
            | Inr res \<Rightarrow> Inr res)"
  using assms trim_nonempty [of q] by (simp add: try_block_def Let_def split: sum.splits)

lemma POST_try_block:
  "\<not> api_key_missing env \<Longrightarrow>
   POST env req =
     (case try_block env req of Inl (error, l) \<Rightarrow> catch_block env l error | Inr res \<Rightarrow> res)"
  by (simp add: POST_def)

lemma POST_valid_query:
  assumes "\<not> api_key_missing env"
    and "auth_getUser env = Inr (Some user)"
    and "request_json req = Inr body"
    and "body \<noteq> JNull" and "body \<noteq> JUndefined"
    and "property body ''query'' = JString q"
    and "trim q \<noteq> []"
  shows "POST env req =
           (case generate_and_save env user q (property body ''pdfText'') of
              Inl e \<Rightarrow>
                catch_block env \<lparr>userIdForDb = Some user, originalUserQuery = JString q\<rparr> e
            | Inr res \<Rightarrow> res)"
  using assms(1) try_block_valid_query [OF assms(2-7)]
  by (simp add: POST_try_block split: sum.splits)

lemma generate_and_save_text:
  assumes "generateContent env (fullPrompt q pdfText) = Inr (Some r)"
    and "response_text r = Inr responseText"
    and "responseText \<noteq> []"
  shows "generate_and_save env user q pdfText =
           Inr \<lparr>response = \<lparr>status = 200, json_body = ReplyBody responseText\<rparr>,
                inserts = [\<lparr>user_id = user, user_query = JString q, bot_response = responseText,
                            pdf_context_used = wasPdfContextUsed pdfText, isError = None\<rparr>],
                logged =
                  (case insert_chat_messages env
                          \<lparr>user_id = user, user_query = JString q, bot_response = responseText,
                           pdf_context_used = wasPdfContextUsed pdfText, isError = None\<rparr> of
                     Some dbError \<Rightarrow>
                       [ConsoleError ''Supabase DB Error saving chat message:'' (db_message dbError)]
                   | None \<Rightarrow> [])\<rparr>"
  using assms by (simp add: generate_and_save_def json_response_def Let_def)

lemma generate_and_save_empty_text:
  assumes "generateContent env (fullPrompt q pdfText) = Inr (Some r)"
    and "response_text r = Inr []"
  shows "generate_and_save env user q pdfText = Inr (empty_text_result r)"
  using assms by (simp add: generate_and_save_def)

lemma example_query_trim: "trim ''What is the capital of France?'' \<noteq> []"
  by (simp add: trim_eq_Nil_iff isWhiteSpace_def)

lemma example_env_key: "\<not> api_key_missing example_env"
  by (simp add: api_key_missing_def example_env_def)

text \<open>
  C3, at the request the chat page sends when no PDF is loaded (\<open>pdfText: null\<close>) and the
  model answers \<open>Paris.\<close>: the one insert carries \<open>pdf_context_used = null\<close>, the value of
  the \<open>&&\<close> chain, where the specification has the boolean \<open>false\<close>.
\<close>

theorem C3_pdf_context_used_null:
  "inserts (POST example_env example_request) =
     [\<lparr>user_id = ''user-1'', user_query = JString ''What is the capital of France?'',
       bot_response = ''Paris.'', pdf_context_used = JNull, isError = None\<rparr>] \<and>
   response (POST example_env example_request) = \<lparr>status = 200, json_body = ReplyBody ''Paris.''\<rparr>"
proof -
  have g: "generate_and_save example_env ''user-1'' ''What is the capital of France?'' JNull =
      Inr \<lparr>response = \<lparr>status = 200, json_body = ReplyBody ''Paris.''\<rparr>,
           inserts = [\<lparr>user_id = ''user-1'',
                       user_query = JString ''What is the capital of France?'',
                       bot_response = ''Paris.'', pdf_context_used = wasPdfContextUsed JNull,
                       isError = None\<rparr>],
           logged = []\<rparr>"
    by (simp add: generate_and_save_def example_env_def example_gen_response_def
        json_response_def Let_def)
  have "POST example_env example_request =
      (case generate_and_save example_env ''user-1'' ''What is the capital of France?''
              (property (JObject [(''query'', JString ''What is the capital of France?''),
                                  (''pdfText'', JNull)]) ''pdfText'') of
         Inl e \<Rightarrow>
           catch_block example_env
             \<lparr>userIdForDb = Some ''user-1'',
              originalUserQuery = JString ''What is the capital of France?''\<rparr> e
       | Inr res \<Rightarrow> res)"
    by (rule POST_valid_query [OF example_env_key _ _ _ _ _ example_query_trim])
      (simp_all add: example_env_def example_request_def)
  then show ?thesis
    using g by (simp add: wasPdfContextUsed_def)
qed

section \<open>Callers without a session\<close>

lemma try_block_no_session:
  "auth_getUser env = Inr None \<Longrightarrow>
   try_block env req =
     Inr \<lparr>response = \<lparr>status = 401,
                         json_body = ErrorBody ''Unauthorized: You must be logged in to chat.''\<rparr>,
          inserts = [], logged = []\<rparr>"
  by (simp add: try_block_def json_response_def)

lemma POST_no_session:
  "auth_getUser env = Inr None \<Longrightarrow>
   POST env req =
     (if api_key_missing env
      then \<lparr>response = \<lparr>status = 500,
                  json_body = ErrorBody ''API configuration error. Please contact support.''\<rparr>,
             inserts = [],
             logged = [ConsoleError ''/api/chat: Gemini API key is missing.'' []]\<rparr>
      else \<lparr>response = \<lparr>status = 401,
                  json_body = ErrorBody ''Unauthorized: You must be logged in to chat.''\<rparr>,
             inserts = [], logged = []\<rparr>)"
  by (simp add: POST_def try_block_no_session json_response_def)

text \<open>
  C4, as the code has it. With no resolvable caller identity the history operation fails
  with 401, and so does the chat operation on a server whose model API key is configured
  (the configuration guard comes before the identity check); in every case neither
  operation sends a write to the store.
\<close>

theorem C4_no_session_no_write:
  assumes "auth_getUser env = Inr None"
  shows "response (GET env) =
           \<lparr>status = 401,
            json_body = ErrorBody ''Unauthorized: You must be logged in to view chat history.''\<rparr> \<and>
         inserts (GET env) = [] \<and>
         inserts (POST env req) = [] \<and>
         (\<not> api_key_missing env \<longrightarrow>
            response (POST env req) =
              \<lparr>status = 401,
               json_body = ErrorBody ''Unauthorized: You must be logged in to chat.''\<rparr>)"
  using assms by (simp add: GET_def json_response_def POST_no_session)

theorem C4_no_session_no_write_witness:
  "auth_getUser env_no_session = Inr None \<and>
   \<not> api_key_missing env_no_session \<and>
   status (response (GET env_no_session)) = 401 \<and>
   inserts (GET env_no_session) = [] \<and>
   inserts (POST env_no_session example_request) = [] \<and>
   status (response (POST env_no_session example_request)) = 401"
proof -
  have a: "auth_getUser env_no_session = Inr None"
    by (simp add: env_no_session_def)
  have k: "\<not> api_key_missing env_no_session"
    by (simp add: env_no_session_def example_env_def api_key_missing_def)
  from C4_no_session_no_write [OF a, of example_request] a k show ?thesis
    by simp
qed

text \<open>
  C4 as the specification states it does not hold when the API key is not configured:
  the request without a session is answered 500, not 401.
\<close>

theorem C4_counterexample:
  "auth_getUser env_no_key_no_session = Inr None \<and>
   response (POST env_no_key_no_session example_request) =
     \<lparr>status = 500, json_body = ErrorBody ''API configuration error. Please contact support.''\<rparr>"
  by (simp add: POST_def api_key_missing_def env_no_key_no_session_def json_response_def)

text \<open>
  C10, as the code has it. For a request without a resolvable caller identity the result
  of the chat operation does not depend on the request body and is never a 400; it is
  Unauthorized (401) on a server whose model API key is configured.
\<close>

theorem C10_identity_before_body:
  assumes "auth_getUser env = Inr None"
  shows "POST env req = POST env req' \<and>
         status (response (POST env req)) \<noteq> 400 \<and>
         (\<not> api_key_missing env \<longrightarrow> status (response (POST env req)) = 401)"
  using assms by (simp add: POST_no_session)

theorem C10_identity_before_body_witness:
  "auth_getUser env_no_session = Inr None \<and>
   POST env_no_session request_malformed = POST env_no_session request_empty_query \<and>
   status (response (POST env_no_session request_malformed)) = 401 \<and>
   status (response (POST env_no_session request_empty_query)) = 401"
proof -
  have a: "auth_getUser env_no_session = Inr None"
    by (simp add: env_no_session_def)
  have k: "\<not> api_key_missing env_no_session"
    by (simp add: env_no_session_def example_env_def api_key_missing_def)
  from C10_identity_before_body [OF a, of request_malformed request_empty_query]
    C10_identity_before_body [OF a, of request_empty_query request_malformed] a k
  show ?thesis
    by simp
qed

text \<open>
  C10 as the specification states it does not hold when the API key is not configured:
  a request without a session and with a malformed body is answered 500.
\<close>

theorem C10_counterexample:
  "auth_getUser env_no_key_no_session = Inr None \<and>
   status (response (POST env_no_key_no_session request_malformed)) = 500"
  by (simp add: POST_def api_key_missing_def env_no_key_no_session_def json_response_def)

section \<open>Failures of the chat handler\<close>

lemma catch_block_response:
  "response (catch_block env l error) = \<lparr>status = 500, json_body = ErrorBody (errorMessage error)\<rparr>"
  by (simp add: catch_block_def json_response_def Let_def split: option.splits prod.splits)

lemma catch_block_inserts:
  "userIdForDb l = Some uid \<Longrightarrow> uid \<noteq> [] \<Longrightarrow>
   inserts (catch_block env l error) = [error_payload uid (originalUserQuery l) error]"
  by (simp add: catch_block_def Let_def)

lemma try_block_throws_locals:
  assumes "auth_getUser env = Inr (Some user)"
    and "try_block env req = Inl (error, l)"
  shows "userIdForDb l = Some user"
  using assms
  by (auto simp: try_block_def Let_def split: sum.splits if_splits js_value.splits)

lemma POST_throws:
  assumes "\<not> api_key_missing env"
    and "try_block env req = Inl (error, l)"
  shows "POST env req = catch_block env l error"
  using assms by (simp add: POST_try_block)

lemma try_block_model_throws:
  "try_block env_model_throws example_request =
     Inl (JsError ''fetch failed: connect ECONNREFUSED 10.0.0.5:443'',
          \<lparr>userIdForDb = Some ''user-1'',
           originalUserQuery = JString ''What is the capital of France?''\<rparr>)"
proof -
  have "try_block env_model_throws example_request =
      (case generate_and_save env_model_throws ''user-1'' ''What is the capital of France?''
              (property (JObject [(''query'', JString ''What is the capital of France?''),
                                  (''pdfText'', JNull)]) ''pdfText'') of
         Inl e \<Rightarrow>
           Inl (e, \<lparr>userIdForDb = Some ''user-1'',
                     originalUserQuery = JString ''What is the capital of France?''\<rparr>)
       | Inr res \<Rightarrow> Inr res)"
    by (rule try_block_valid_query [OF _ _ _ _ _ example_query_trim])
      (simp_all add: env_model_throws_def example_env_def example_request_def)
  then show ?thesis
    by (simp add: generate_and_save_def env_model_throws_def)
qed

lemma env_model_throws_key: "\<not> api_key_missing env_model_throws"
  by (simp add: api_key_missing_def env_model_throws_def example_env_def)

text \<open>
  C5, as the code has it. Every failure classified as Internal is answered with status
  500. For an unexpected exception in the chat handler the message is the exception's own
  message when it has one, and the fixed generic message otherwise; for a storage failure
  in the history handler it is the fixed prefix \<open>Failed to fetch chat history. \<close> followed
  by the database error's message; for an unexpected exception in the history handler it
  is the fixed prefix \<open>An unexpected error occurred. \<close> followed by its message.
\<close>

theorem C5_internal_failure_message:
  "(\<not> api_key_missing env \<and> try_block env req = Inl (error, l) \<longrightarrow>
      response (POST env req) =
        \<lparr>status = 500,
         json_body = ErrorBody (if message error \<noteq> [] then message error
                                else unexpected_error_message)\<rparr>) \<and>
   (auth_getUser env = Inr (Some user) \<and> select_chat_messages env user = Inl dbError \<longrightarrow>
      response (GET env) =
        \<lparr>status = 500,
         json_body = ErrorBody (''Failed to fetch chat history. '' @ db_message dbError)\<rparr>) \<and>
   (auth_getUser env = Inl error \<longrightarrow>
      response (GET env) =
        \<lparr>status = 500,
         json_body = ErrorBody (''An unexpected error occurred. '' @ message error)\<rparr>)"
proof (intro conjI impI)
  assume "\<not> api_key_missing env \<and> try_block env req = Inl (error, l)"
  then have "POST env req = catch_block env l error"
    by (simp add: POST_throws)
  then show "response (POST env req) =
      \<lparr>status = 500,
       json_body = ErrorBody (if message error \<noteq> [] then message error
                              else unexpected_error_message)\<rparr>"
    by (simp add: catch_block_response errorMessage_def)
next
  assume "auth_getUser env = Inr (Some user) \<and> select_chat_messages env user = Inl dbError"
  then show "response (GET env) =
      \<lparr>status = 500,
       json_body = ErrorBody (''Failed to fetch chat history. '' @ db_message dbError)\<rparr>"
    by (simp add: GET_def json_response_def)
next
  assume "auth_getUser env = Inl error"
  then show "response (GET env) =
      \<lparr>status = 500,
       json_body = ErrorBody (''An unexpected error occurred. '' @ message error)\<rparr>"
    by (simp add: GET_def json_response_def)
qed

theorem C5_internal_failure_message_witness:
  "\<not> api_key_missing env_model_throws \<and>
   try_block env_model_throws example_request =
     Inl (JsError ''fetch failed: connect ECONNREFUSED 10.0.0.5:443'',
          \<lparr>userIdForDb = Some ''user-1'',
           originalUserQuery = JString ''What is the capital of France?''\<rparr>) \<and>
   response (POST env_model_throws example_request) =
     \<lparr>status = 500,
      json_body = ErrorBody ''fetch failed: connect ECONNREFUSED 10.0.0.5:443''\<rparr> \<and>
   auth_getUser env_select_fails = Inr (Some ''user-1'') \<and>
   select_chat_messages env_select_fails ''user-1'' =
     Inl (DbError ''permission denied for table chat_messages'') \<and>
   response (GET env_select_fails) =
     \<lparr>status = 500,
      json_body =
        ErrorBody ''Failed to fetch chat history. permission denied for table chat_messages''\<rparr>"
proof -
  have a: "auth_getUser env_select_fails = Inr (Some ''user-1'')"
    by (simp add: env_select_fails_def example_env_def)
  have d: "select_chat_messages env_select_fails ''user-1'' =
      Inl (DbError ''permission denied for table chat_messages'')"
    by (simp add: env_select_fails_def)
  from C5_internal_failure_message
    [of env_model_throws example_request
      "JsError ''fetch failed: connect ECONNREFUSED 10.0.0.5:443''"
      "\<lparr>userIdForDb = Some ''user-1'',
        originalUserQuery = JString ''What is the capital of France?''\<rparr>"]
    env_model_throws_key try_block_model_throws
  have chat: "response (POST env_model_throws example_request) =
      \<lparr>status = 500,
       json_body = ErrorBody ''fetch failed: connect ECONNREFUSED 10.0.0.5:443''\<rparr>"
    by simp
  from C5_internal_failure_message
    [of env_select_fails _ _ _ "''user-1''" "DbError ''permission denied for table chat_messages''"]
    a d
  have hist: "response (GET env_select_fails) =
      \<lparr>status = 500,
       json_body =
         ErrorBody ''Failed to fetch chat history. permission denied for table chat_messages''\<rparr>"
    by simp
  from env_model_throws_key try_block_model_throws chat a d hist show ?thesis
    by blast
qed

text \<open>
  C5 as the specification states it does not hold: the message of the exception thrown
  by the model call, and the message of the database error of the history query, reach
  the caller.
\<close>

theorem C5_counterexample:
  "json_body (response (POST env_model_throws example_request)) =
     ErrorBody ''fetch failed: connect ECONNREFUSED 10.0.0.5:443'' \<and>
   json_body (response (GET env_select_fails)) =
     ErrorBody ''Failed to fetch chat history. permission denied for table chat_messages''"
proof -
  have "POST env_model_throws example_request =
      catch_block env_model_throws
        \<lparr>userIdForDb = Some ''user-1'',
         originalUserQuery = JString ''What is the capital of France?''\<rparr>
        (JsError ''fetch failed: connect ECONNREFUSED 10.0.0.5:443'')"
    by (rule POST_throws [OF env_model_throws_key try_block_model_throws])
  then have "json_body (response (POST env_model_throws example_request)) =
      ErrorBody ''fetch failed: connect ECONNREFUSED 10.0.0.5:443''"
    by (simp add: catch_block_response errorMessage_def)
  moreover have "json_body (response (GET env_select_fails)) =
      ErrorBody ''Failed to fetch chat history. permission denied for table chat_messages''"
    by (simp add: GET_def env_select_fails_def example_env_def json_response_def)
  ultimately show ?thesis
    by blast
qed

section \<open>The store's answer does not reach the caller\<close>

lemma api_key_missing_insert [simp]:
  "api_key_missing (env\<lparr>insert_chat_messages := ins\<rparr>) = api_key_missing env"
  by (simp add: api_key_missing_def)

text \<open>
  C7. On a successful turn (the model returns non-empty text) the caller receives the
  generated reply with status 200 whatever the store answers to the insert of the
  interaction record, a failure included.
\<close>

theorem C7_reply_independent_of_insert:
  assumes "\<not> api_key_missing env"
    and "auth_getUser env = Inr (Some user)"
    and "request_json req = Inr body"
    and "body \<noteq> JNull" and "body \<noteq> JUndefined"
    and "property body ''query'' = JString q"
    and "trim q \<noteq> []"
    and "generateContent env (fullPrompt q (property body ''pdfText'')) = Inr (Some r)"
    and "response_text r = Inr responseText"
    and "responseText \<noteq> []"
  shows "response (POST (env\<lparr>insert_chat_messages := ins\<rparr>) req) =
           \<lparr>status = 200, json_body = ReplyBody responseText\<rparr>"
proof -
  let ?env = "env\<lparr>insert_chat_messages := ins\<rparr>"
  have g: "generateContent ?env (fullPrompt q (property body ''pdfText'')) = Inr (Some r)"
    using assms(8) by simp
  have "POST ?env req =
      (case generate_and_save ?env user q (property body ''pdfText'') of
         Inl e \<Rightarrow>
           catch_block ?env \<lparr>userIdForDb = Some user, originalUserQuery = JString q\<rparr> e
       | Inr res \<Rightarrow> res)"
    using assms(1-7) by (intro POST_valid_query) simp_all
  then show ?thesis
    by (simp add: generate_and_save_text [OF g assms(9) assms(10)])
qed

theorem C7_reply_independent_of_insert_witness:
  "\<not> api_key_missing example_env \<and>
   failing_insert \<lparr>user_id = ''user-1'', user_query = JString ''What is the capital of France?'',
                   bot_response = ''Paris.'', pdf_context_used = JNull, isError = None\<rparr> =
     Some (DbError ''new row violates row-level security policy'') \<and>
   response (POST (example_env\<lparr>insert_chat_messages := failing_insert\<rparr>) example_request) =
     \<lparr>status = 200, json_body = ReplyBody ''Paris.''\<rparr>"
proof -
  have "response (POST (example_env\<lparr>insert_chat_messages := failing_insert\<rparr>) example_request) =
      \<lparr>status = 200, json_body = ReplyBody ''Paris.''\<rparr>"
    by (rule C7_reply_independent_of_insert
        [OF example_env_key _ _ _ _ _ example_query_trim,
          where r = example_gen_response
            and body = "JObject [(''query'', JString ''What is the capital of France?''),
                                 (''pdfText'', JNull)]"])
      (simp_all add: example_env_def example_request_def example_gen_response_def)
  then show ?thesis
    using example_env_key by (simp add: failing_insert_def)
qed

text \<open>
  C8. When the \<open>try\<close> block throws after the caller identity was resolved (the id being a
  non-empty string, as every id of the auth provider is), the handler sends exactly one
  insert: owner the caller, \<open>bot_response\<close> the error message prefixed with
  \<open>SYSTEM ERROR: \<close>, \<open>pdf_context_used\<close> false; and whatever the store answers to it, the
  caller receives the original failure with status 500.
\<close>

theorem C8_error_record:
  assumes "\<not> api_key_missing env"
    and "auth_getUser env = Inr (Some user)"
    and "user \<noteq> []"
    and "try_block env req = Inl (error, l)"
  shows "inserts (POST env req) =
           [\<lparr>user_id = user, user_query = originalUserQuery l,
             bot_response = ''SYSTEM ERROR: '' @ errorMessage error,
             pdf_context_used = JBool False, isError = Some True\<rparr>] \<and>
         response (POST env req) = \<lparr>status = 500, json_body = ErrorBody (errorMessage error)\<rparr>"
proof -
  have p: "POST env req = catch_block env l error"
    by (rule POST_throws [OF assms(1) assms(4)])
  have "userIdForDb l = Some user"
    by (rule try_block_throws_locals [OF assms(2) assms(4)])
  then have "inserts (catch_block env l error) = [error_payload user (originalUserQuery l) error]"
    using assms(3) by (rule catch_block_inserts)
  with p show ?thesis
    by (simp add: catch_block_response error_payload_def)
qed

theorem C8_error_record_witness:
  "\<not> api_key_missing env_model_throws_insert_fails \<and>
   auth_getUser env_model_throws_insert_fails = Inr (Some ''user-1'') \<and>
   ''user-1'' \<noteq> [] \<and>
   try_block env_model_throws_insert_fails example_request =
     Inl (JsError ''fetch failed: connect ECONNREFUSED 10.0.0.5:443'',
          \<lparr>userIdForDb = Some ''user-1'',
           originalUserQuery = JString ''What is the capital of France?''\<rparr>) \<and>
   inserts (POST env_model_throws_insert_fails example_request) =
     [\<lparr>user_id = ''user-1'', user_query = JString ''What is the capital of France?'',
       bot_response = ''SYSTEM ERROR: fetch failed: connect ECONNREFUSED 10.0.0.5:443'',
       pdf_context_used = JBool False, isError = Some True\<rparr>] \<and>
   insert_chat_messages env_model_throws_insert_fails
     \<lparr>user_id = ''user-1'', user_query = JString ''What is the capital of France?'',
      bot_response = ''SYSTEM ERROR: fetch failed: connect ECONNREFUSED 10.0.0.5:443'',
      pdf_context_used = JBool False, isError = Some True\<rparr> =
     Some (DbError ''new row violates row-level security policy'') \<and>
   response (POST env_model_throws_insert_fails example_request) =
     \<lparr>status = 500,
      json_body = ErrorBody ''fetch failed: connect ECONNREFUSED 10.0.0.5:443''\<rparr>"
proof -
  have k: "\<not> api_key_missing env_model_throws_insert_fails"
    by (simp add: env_model_throws_insert_fails_def env_model_throws_key)
  have a: "auth_getUser env_model_throws_insert_fails = Inr (Some ''user-1'')"
    by (simp add: env_model_throws_insert_fails_def env_model_throws_def example_env_def)
  have u: "''user-1'' \<noteq> []"
    by simp
  have "try_block env_model_throws_insert_fails example_request =
      (case generate_and_save env_model_throws_insert_fails ''user-1''
              ''What is the capital of France?''
              (property (JObject [(''query'', JString ''What is the capital of France?''),
                                  (''pdfText'', JNull)]) ''pdfText'') of
         Inl e \<Rightarrow>
           Inl (e, \<lparr>userIdForDb = Some ''user-1'',
                     originalUserQuery = JString ''What is the capital of France?''\<rparr>)
       | Inr res \<Rightarrow> Inr res)"
    by (rule try_block_valid_query [OF a _ _ _ _ example_query_trim])
      (simp_all add: example_request_def)
  then have t: "try_block env_model_throws_insert_fails example_request =
      Inl (JsError ''fetch failed: connect ECONNREFUSED 10.0.0.5:443'',
           \<lparr>userIdForDb = Some ''user-1'',
            originalUserQuery = JString ''What is the capital of France?''\<rparr>)"
    by (simp add: generate_and_save_def env_model_throws_insert_fails_def env_model_throws_def)
  have i: "insert_chat_messages env_model_throws_insert_fails
      \<lparr>user_id = ''user-1'', user_query = JString ''What is the capital of France?'',
       bot_response = ''SYSTEM ERROR: fetch failed: connect ECONNREFUSED 10.0.0.5:443'',
       pdf_context_used = JBool False, isError = Some True\<rparr> =
      Some (DbError ''new row violates row-level security policy'')"
    by (simp add: env_model_throws_insert_fails_def failing_insert_def)
  from C8_error_record [OF k a u t] have
    "inserts (POST env_model_throws_insert_fails example_request) =
       [\<lparr>user_id = ''user-1'', user_query = JString ''What is the capital of France?'',
         bot_response = ''SYSTEM ERROR: fetch failed: connect ECONNREFUSED 10.0.0.5:443'',
         pdf_context_used = JBool False, isError = Some True\<rparr>] \<and>
     response (POST env_model_throws_insert_fails example_request) =
       \<lparr>status = 500,
        json_body = ErrorBody ''fetch failed: connect ECONNREFUSED 10.0.0.5:443''\<rparr>"
    by (simp add: errorMessage_def)
  with k a u t i show ?thesis
    by blast
qed

section \<open>Empty model output\<close>

lemmas reason_defs =
  BlockReason_SAFETY_def FinishReason_SAFETY_def FinishReason_STOP_def
  default_blockReasonMessage_def empty_response_message_def

lemma empty_text_inserts: "inserts (empty_text_result r) = []"
  by (simp add: empty_text_result_def Let_def split: prod.splits)

lemma empty_text_candidate_safety:
  "finishReason r = Some FinishReason_SAFETY \<Longrightarrow>
   response (empty_text_result r) =
     \<lparr>status = 400,
      json_body = ErrorBody
        ''The generated response was blocked due to safety concerns. Please try a different query.''\<rparr>"
  by (simp add: empty_text_result_def Let_def json_response_def reason_defs split: prod.splits)

lemma empty_text_abnormal_finish:
  "finishReason r = Some f \<Longrightarrow> f \<noteq> [] \<Longrightarrow> f \<noteq> FinishReason_SAFETY \<Longrightarrow>
   f \<noteq> FinishReason_STOP \<Longrightarrow>
   response (empty_text_result r) =
     \<lparr>status = 400,
      json_body = ErrorBody
        (''Response generation incomplete. Reason: '' @ f @ ''. Try a shorter query or PDF.'')\<rparr>"
  by (simp add: empty_text_result_def Let_def json_response_def reason_defs split: prod.splits)

lemma empty_text_prompt_safety:
  "finishReason r = None \<or> finishReason r = Some [] \<or> finishReason r = Some FinishReason_STOP \<Longrightarrow>
   blockReason r = Some BlockReason_SAFETY \<Longrightarrow>
   response (empty_text_result r) =
     \<lparr>status = 400,
      json_body = ErrorBody ''Your query was blocked due to safety concerns. Please rephrase.''\<rparr>"
  by (auto simp: empty_text_result_def Let_def json_response_def reason_defs split: prod.splits)

lemma empty_text_prompt_other:
  "finishReason r = None \<or> finishReason r = Some [] \<or> finishReason r = Some FinishReason_STOP \<Longrightarrow>
   blockReason r = Some b \<Longrightarrow> b \<noteq> [] \<Longrightarrow> b \<noteq> BlockReason_SAFETY \<Longrightarrow>
   response (empty_text_result r) =
     \<lparr>status = 400,
      json_body = ErrorBody (''There was an issue with the prompt. Reason: '' @ b @ ''.'')\<rparr>"
  by (auto simp: empty_text_result_def Let_def json_response_def reason_defs split: prod.splits)

lemma empty_text_no_reason:
  "finishReason r = None \<or> finishReason r = Some [] \<or> finishReason r = Some FinishReason_STOP \<Longrightarrow>
   blockReason r = None \<or> blockReason r = Some [] \<Longrightarrow>
   response (empty_text_result r) = \<lparr>status = 500, json_body = ErrorBody empty_response_message\<rparr>"
  by (auto simp: empty_text_result_def Let_def json_response_def reason_defs split: prod.splits)

lemma POST_empty_text:
  assumes "\<not> api_key_missing env"
    and "auth_getUser env = Inr (Some user)"
    and "request_json req = Inr body"
    and "body \<noteq> JNull" and "body \<noteq> JUndefined"
    and "property body ''query'' = JString q"
    and "trim q \<noteq> []"
    and "generateContent env (fullPrompt q (property body ''pdfText'')) = Inr (Some r)"
    and "response_text r = Inr []"
  shows "POST env req = empty_text_result r"
  by (simp add: POST_valid_query [OF assms(1-7)] generate_and_save_empty_text [OF assms(8,9)])

lemma example_request_json:
  "request_json example_request =
     Inr (JObject [(''query'', JString ''What is the capital of France?''), (''pdfText'', JNull)])"
  by (simp add: example_request_def)

text \<open>
  Empty text that \<open>response.text()\<close> returns is classified by that branch: a finish reason
  other than STOP gives 400 with the message that names it, and no reason at all gives
  500 with the generic message.
\<close>

lemma empty_text_returned:
  "response (POST env_max_tokens example_request) =
     \<lparr>status = 400,
      json_body = ErrorBody
        ''Response generation incomplete. Reason: MAX_TOKENS. Try a shorter query or PDF.''\<rparr> \<and>
   response (POST env_empty_answer example_request) =
     \<lparr>status = 500,
      json_body = ErrorBody
        ''I received an empty response from the AI. Could you try rephrasing?''\<rparr>"
proof -
  let ?body = "JObject [(''query'', JString ''What is the capital of France?''), (''pdfText'', JNull)]"
  have b: "?body \<noteq> JNull" "?body \<noteq> JUndefined"
    "property ?body ''query'' = JString ''What is the capital of France?''"
    by simp_all
  have k2: "\<not> api_key_missing env_max_tokens"
    by (simp add: api_key_missing_def env_max_tokens_def example_env_def)
  have a2: "auth_getUser env_max_tokens = Inr (Some ''user-1'')"
    by (simp add: env_max_tokens_def example_env_def)
  have g2: "generateContent env_max_tokens
        (fullPrompt ''What is the capital of France?'' (property ?body ''pdfText'')) =
      Inr (Some \<lparr>response_text = Inr [], blockReason = None,
                  finishReason = Some ''MAX_TOKENS''\<rparr>)"
    by (simp add: env_max_tokens_def)
  have k3: "\<not> api_key_missing env_empty_answer"
    by (simp add: api_key_missing_def env_empty_answer_def example_env_def)
  have a3: "auth_getUser env_empty_answer = Inr (Some ''user-1'')"
    by (simp add: env_empty_answer_def example_env_def)
  have g3: "generateContent env_empty_answer
        (fullPrompt ''What is the capital of France?'' (property ?body ''pdfText'')) =
      Inr (Some \<lparr>response_text = Inr [], blockReason = None, finishReason = Some ''STOP''\<rparr>)"
    by (simp add: env_empty_answer_def)
  have "POST env_max_tokens example_request =
      empty_text_result \<lparr>response_text = Inr [], blockReason = None,
                          finishReason = Some ''MAX_TOKENS''\<rparr>"
    by (rule POST_empty_text [OF k2 a2 example_request_json b example_query_trim g2]) simp
  moreover have "POST env_empty_answer example_request =
      empty_text_result \<lparr>response_text = Inr [], blockReason = None,
                          finishReason = Some ''STOP''\<rparr>"
    by (rule POST_empty_text [OF k3 a3 example_request_json b example_query_trim g3]) simp
  ultimately show ?thesis
    by (simp add: empty_text_abnormal_finish [where f = "''MAX_TOKENS''"] empty_text_no_reason
        reason_defs)
qed

lemma try_block_text_throws:
  assumes "auth_getUser env = Inr (Some ''user-1'')"
    and "generateContent env (fullPrompt ''What is the capital of France?'' JNull) =
           Inr (Some r)"
    and "response_text r = Inl error"
  shows "try_block env example_request =
           Inl (error, \<lparr>userIdForDb = Some ''user-1'',
                        originalUserQuery = JString ''What is the capital of France?''\<rparr>)"
proof -
  have "try_block env example_request =
      (case generate_and_save env ''user-1'' ''What is the capital of France?''
              (property (JObject [(''query'', JString ''What is the capital of France?''),
                                  (''pdfText'', JNull)]) ''pdfText'') of
         Inl e \<Rightarrow>
           Inl (e, \<lparr>userIdForDb = Some ''user-1'',
                     originalUserQuery = JString ''What is the capital of France?''\<rparr>)
       | Inr res \<Rightarrow> Inr res)"
    by (rule try_block_valid_query [OF assms(1) example_request_json _ _ _ example_query_trim])
      simp_all
  then show ?thesis
    using assms(2,3) by (simp add: generate_and_save_def)
qed

text \<open>
  C6, where the code departs from it. The handler calls \<open>response.text()\<close> before the
  branch that classifies empty text. For a prompt that the model API blocked for safety,
  and for a first candidate blocked for safety, that call throws, so the classification
  is not reached: the \<open>catch\<close> block answers 500 with the SDK's message and sends the
  error-marked insert, where the specification has 400 with the message that the query
  (or the response) was blocked.
\<close>

theorem C6_safety_block_reaches_catch:
  "response (POST env_prompt_blocked example_request) =
     \<lparr>status = 500,
      json_body = ErrorBody
        ''[GoogleGenerativeAI Error]: Text not available. Response was blocked due to SAFETY''\<rparr> \<and>
   inserts (POST env_prompt_blocked example_request) =
     [\<lparr>user_id = ''user-1'', user_query = JString ''What is the capital of France?'',
       bot_response =
         ''SYSTEM ERROR: [GoogleGenerativeAI Error]: Text not available. Response was blocked due to SAFETY'',
       pdf_context_used = JBool False, isError = Some True\<rparr>] \<and>
   response (POST env_candidate_blocked example_request) =
     \<lparr>status = 500,
      json_body = ErrorBody ''[GoogleGenerativeAI Error]: Candidate was blocked due to SAFETY''\<rparr> \<and>
   inserts (POST env_candidate_blocked example_request) =
     [\<lparr>user_id = ''user-1'', user_query = JString ''What is the capital of France?'',
       bot_response = ''SYSTEM ERROR: [GoogleGenerativeAI Error]: Candidate was blocked due to SAFETY'',
       pdf_context_used = JBool False, isError = Some True\<rparr>]"
proof -
  let ?l = "\<lparr>userIdForDb = Some ''user-1'',
             originalUserQuery = JString ''What is the capital of France?''\<rparr>"
  let ?e1 = "JsError
    ''[GoogleGenerativeAI Error]: Text not available. Response was blocked due to SAFETY''"
  let ?e2 = "JsError ''[GoogleGenerativeAI Error]: Candidate was blocked due to SAFETY''"
  have k1: "\<not> api_key_missing env_prompt_blocked"
    by (simp add: api_key_missing_def env_prompt_blocked_def example_env_def)
  have k2: "\<not> api_key_missing env_candidate_blocked"
    by (simp add: api_key_missing_def env_candidate_blocked_def example_env_def)
  have t1: "try_block env_prompt_blocked example_request = Inl (?e1, ?l)"
    by (rule try_block_text_throws
        [where r = "\<lparr>response_text = Inl ?e1, blockReason = Some ''SAFETY'',
                      finishReason = None\<rparr>"])
      (simp_all add: env_prompt_blocked_def example_env_def)
  have t2: "try_block env_candidate_blocked example_request = Inl (?e2, ?l)"
    by (rule try_block_text_throws
        [where r = "\<lparr>response_text = Inl ?e2, blockReason = None,
                      finishReason = Some ''SAFETY''\<rparr>"])
      (simp_all add: env_candidate_blocked_def example_env_def)
  have p1: "POST env_prompt_blocked example_request = catch_block env_prompt_blocked ?l ?e1"
    by (rule POST_throws [OF k1 t1])
  have p2: "POST env_candidate_blocked example_request =
      catch_block env_candidate_blocked ?l ?e2"
    by (rule POST_throws [OF k2 t2])
  have i1: "inserts (catch_block env_prompt_blocked ?l ?e1) =
      [error_payload ''user-1'' (JString ''What is the capital of France?'') ?e1]"
    using catch_block_inserts [of ?l "''user-1''" env_prompt_blocked ?e1] by simp
  have i2: "inserts (catch_block env_candidate_blocked ?l ?e2) =
      [error_payload ''user-1'' (JString ''What is the capital of France?'') ?e2]"
    using catch_block_inserts [of ?l "''user-1''" env_candidate_blocked ?e2] by simp
  show ?thesis
    unfolding p1 p2 i1 i2 catch_block_response
    by (simp add: error_payload_def errorMessage_def)
qed

section \<open>Merging history on the chat page\<close>

lemma insert_by_parsed:
  assumes "getTime (timestamp x) = Some (millis x)"
    and "\<forall>m\<in>set ys. getTime (timestamp m) = Some (millis m)"
  shows "insert_by (\<lambda>a b. js_minus (getTime (timestamp a)) (getTime (timestamp b))) x ys =
           insort_key millis x ys"
  using assms by (induction ys) (simp_all add: js_minus_def)

lemma array_sort_parsed:
  assumes "\<forall>m\<in>set xs. getTime (timestamp m) = Some (millis m)"
  shows "array_sort (\<lambda>a b. js_minus (getTime (timestamp a)) (getTime (timestamp b))) xs =
           sort_key millis xs"
  using assms
proof (induction xs)
  case Nil
  then show ?case by (simp add: array_sort_def)
next
  case (Cons x xs)
  then have ih: "array_sort (\<lambda>a b. js_minus (getTime (timestamp a)) (getTime (timestamp b))) xs =
      sort_key millis xs"
    by simp
  have "insert_by (\<lambda>a b. js_minus (getTime (timestamp a)) (getTime (timestamp b))) x
      (sort_key millis xs) = insort_key millis x (sort_key millis xs)"
    using Cons.prems by (intro insert_by_parsed) simp_all
  with ih show ?case
    by (simp add: array_sort_def sort_key_def)
qed

lemma mergeHistory_sort_key:
  assumes "\<forall>m\<in>set historyMessages \<union> set prevMessages. getTime (timestamp m) = Some (millis m)"
  shows "mergeHistory getTime historyMessages prevMessages =
           sort_key millis
             (filter (\<lambda>m. id_msg m \<notin> set (map id_msg prevMessages)) historyMessages @
              prevMessages)"
proof -
  have "\<forall>m\<in>set (filter (\<lambda>m. id_msg m \<notin> set (map id_msg prevMessages)) historyMessages @
      prevMessages). getTime (timestamp m) = Some (millis m)"
    using assms by auto
  then show ?thesis
    unfolding mergeHistory_def Let_def by (rule array_sort_parsed)
qed

lemma shown_kept_in_order:
  assumes "sorted (map millis prevMessages)"
  shows "filter (\<lambda>m. id_msg m \<in> set (map id_msg prevMessages))
           (sort_key millis
              (filter (\<lambda>m. id_msg m \<notin> set (map id_msg prevMessages)) historyMessages @
               prevMessages)) = prevMessages"
proof -
  let ?shown = "\<lambda>m. id_msg m \<in> set (map id_msg prevMessages)"
  let ?unique = "filter (\<lambda>m. id_msg m \<notin> set (map id_msg prevMessages)) historyMessages"
  have "filter ?shown ?unique = []"
    by (simp add: filter_empty_conv)
  moreover have "filter ?shown prevMessages = prevMessages"
    by (simp add: filter_id_conv)
  ultimately have "filter ?shown (?unique @ prevMessages) = prevMessages"
    by (simp only: filter_append append_Nil)
  then have "filter ?shown (sort_key millis (?unique @ prevMessages)) = sort_key millis prevMessages"
    by (simp only: filter_sort)
  with assms show ?thesis
    by (simp only: sort_key_id_if_sorted)
qed

text \<open>
  C9, as the code has it. When every timestamp parses (\<open>millis m\<close> being the milliseconds
  read from the timestamp of \<open>m\<close>), the merge returns the displayed messages together
  with exactly those history messages whose identifier does not occur among the displayed
  ones, in ascending order of timestamp, and the sort is stable: messages of one
  timestamp keep the order they have in the list of the kept history messages followed by
  the displayed ones, so that the result is the stable sort of that list. When the
  displayed messages are already in ascending order of timestamp, they keep their
  relative order in the result.
\<close>

theorem C9_merge_history:
  assumes "\<forall>m\<in>set historyMessages \<union> set prevMessages. getTime (timestamp m) = Some (millis m)"
  shows "mset (mergeHistory getTime historyMessages prevMessages) =
           mset prevMessages +
           mset (filter (\<lambda>m. id_msg m \<notin> set (map id_msg prevMessages)) historyMessages) \<and>
         sorted (map millis (mergeHistory getTime historyMessages prevMessages)) \<and>
         (\<forall>t. filter (\<lambda>m. millis m = t) (mergeHistory getTime historyMessages prevMessages) =
               filter (\<lambda>m. millis m = t)
                 (filter (\<lambda>m. id_msg m \<notin> set (map id_msg prevMessages)) historyMessages @
                  prevMessages)) \<and>
         mergeHistory getTime historyMessages prevMessages =
           sort_key millis
             (filter (\<lambda>m. id_msg m \<notin> set (map id_msg prevMessages)) historyMessages @
              prevMessages) \<and>
         (sorted (map millis prevMessages) \<longrightarrow>
            filter (\<lambda>m. id_msg m \<in> set (map id_msg prevMessages))
              (mergeHistory getTime historyMessages prevMessages) = prevMessages)"
proof -
  let ?combined = "filter (\<lambda>m. id_msg m \<notin> set (map id_msg prevMessages)) historyMessages @
    prevMessages"
  have eq: "mergeHistory getTime historyMessages prevMessages = sort_key millis ?combined"
    using assms by (rule mergeHistory_sort_key)
  have "mset (sort_key millis ?combined) =
      mset prevMessages +
      mset (filter (\<lambda>m. id_msg m \<notin> set (map id_msg prevMessages)) historyMessages)"
    by simp
  moreover have "sorted (map millis (sort_key millis ?combined))"
    by (rule sorted_sort_key)
  moreover have "\<forall>t. filter (\<lambda>m. millis m = t) (sort_key millis ?combined) =
      filter (\<lambda>m. millis m = t) ?combined"
    by (simp only: sort_key_stable) simp
  moreover have "sorted (map millis prevMessages) \<longrightarrow>
      filter (\<lambda>m. id_msg m \<in> set (map id_msg prevMessages)) (sort_key millis ?combined) =
      prevMessages"
    using shown_kept_in_order [of millis prevMessages historyMessages] by blast
  ultimately show ?thesis
    unfolding eq by blast
qed

lemma example_millis_values:
  "example_getTime (timestamp history_user_msg) = Some (example_millis history_user_msg)"
  "example_getTime (timestamp history_bot_msg) = Some (example_millis history_bot_msg)"
  "example_getTime (timestamp shown_system_msg) = Some (example_millis shown_system_msg)"
  "example_getTime (timestamp shown_user_msg) = Some (example_millis shown_user_msg)"
  by (simp_all add: example_millis_def example_getTime_def history_user_msg_def
      history_bot_msg_def shown_system_msg_def shown_user_msg_def)

theorem C9_merge_history_witness:
  "example_getTime (timestamp history_user_msg) = Some (example_millis history_user_msg) \<and>
   example_getTime (timestamp history_bot_msg) = Some (example_millis history_bot_msg) \<and>
   example_getTime (timestamp shown_system_msg) = Some (example_millis shown_system_msg) \<and>
   example_getTime (timestamp shown_user_msg) = Some (example_millis shown_user_msg) \<and>
   sorted (map example_millis [shown_system_msg, shown_user_msg]) \<and>
   filter (\<lambda>m. id_msg m \<in> set (map id_msg [shown_system_msg, shown_user_msg]))
     (mergeHistory example_getTime [history_user_msg, history_bot_msg, shown_user_msg]
        [shown_system_msg, shown_user_msg]) =
     [shown_system_msg, shown_user_msg] \<and>
   filter (\<lambda>m. example_millis m = 1714557600000)
     (mergeHistory example_getTime [history_user_msg, history_bot_msg, shown_user_msg]
        [shown_system_msg, shown_user_msg]) =
     [history_user_msg, history_bot_msg] \<and>
   mergeHistory example_getTime [history_user_msg, history_bot_msg, shown_user_msg]
     [shown_system_msg, shown_user_msg] =
     [history_user_msg, history_bot_msg, shown_system_msg, shown_user_msg]"
proof -
  let ?h = "[history_user_msg, history_bot_msg, shown_user_msg]"
  let ?p = "[shown_system_msg, shown_user_msg]"
  have parse: "\<forall>m\<in>set ?h \<union> set ?p. example_getTime (timestamp m) = Some (example_millis m)"
    by (simp add: example_millis_values)
  have srt: "sorted (map example_millis ?p)"
    by (simp add: example_millis_def example_getTime_def shown_system_msg_def shown_user_msg_def)
  note c9 = C9_merge_history [OF parse]
  from c9 srt have kept:
    "filter (\<lambda>m. id_msg m \<in> set (map id_msg ?p)) (mergeHistory example_getTime ?h ?p) = ?p"
    by blast
  from c9 have "filter (\<lambda>m. example_millis m = 1714557600000) (mergeHistory example_getTime ?h ?p) =
      filter (\<lambda>m. example_millis m = 1714557600000)
        (filter (\<lambda>m. id_msg m \<notin> set (map id_msg ?p)) ?h @ ?p)"
    by blast
  then have stable:
    "filter (\<lambda>m. example_millis m = 1714557600000) (mergeHistory example_getTime ?h ?p) =
      [history_user_msg, history_bot_msg]"
    by (simp add: example_millis_def example_getTime_def history_user_msg_def
        history_bot_msg_def shown_system_msg_def shown_user_msg_def)
  from c9 have "mergeHistory example_getTime ?h ?p =
      sort_key example_millis (filter (\<lambda>m. id_msg m \<notin> set (map id_msg ?p)) ?h @ ?p)"
    by blast
  then have whole: "mergeHistory example_getTime ?h ?p =
      [history_user_msg, history_bot_msg, shown_system_msg, shown_user_msg]"
    by (simp add: example_millis_def example_getTime_def history_user_msg_def
        history_bot_msg_def shown_system_msg_def shown_user_msg_def)
  from example_millis_values srt kept stable whole show ?thesis
    by blast
qed

text \<open>
  C9 as the specification states it, for every displayed list, does not hold when the
  displayed messages are not in ascending order of timestamp: the sort exchanges them.
\<close>

theorem C9_counterexample:
  "mergeHistory example_getTime [] [shown_user_msg, shown_system_msg] =
     [shown_system_msg, shown_user_msg] \<and>
   shown_user_msg \<noteq> shown_system_msg"
  by (simp add: mergeHistory_def array_sort_def js_minus_def example_getTime_def
      shown_system_msg_def shown_user_msg_def)

end
